theory Spec2Isabelle
  imports Complex_Main "HOL-Library.Word"
begin

section \<open>Numbers, vectors and colours\<close>

text \<open>
  The program computes in single-precision \<open>float\<close>. The embedding reads every
  \<open>float\<close> as a real number and every operation as the exact one: no rounding, no
  overflow, no NaN and no infinity. The one place where exact arithmetic has no value at
  all is a division by zero, where the hardware goes on with an infinity or a NaN: a
  division whose divisor can be zero is written \<open>fdiv\<close> (\<open>vdiv\<close> on vectors), and a
  function whose computation divides by zero has the value \<open>None\<close> (the computation has
  left the finite numbers, the embedding does not follow it further). A division by a
  literal, or behind a test that the divisor is not zero, is the division of the reals.
\<close>

definition fdiv :: "real \<Rightarrow> real \<Rightarrow> real option" where
  "fdiv a b = (if b = 0 then None else Some (a / b))"

text \<open>
  \<open>Vec3.cuh\<close> and \<open>Color.cuh\<close> are not among the sources. \<open>Vec3f_t\<close>,
  \<open>Point3f_t\<close> and CUDA's \<open>float3\<close> are triples of floats with componentwise
  operators, \<open>Color_t\<close> is a triple \<open>r, g, b\<close>; \<open>fromFloat3\<close> and
  \<open>make_float3\<close> only change the C++ type and disappear here.
\<close>

datatype Vec3f_t = Vec3f (vec_x: real) (vec_y: real) (vec_z: real)

type_synonym Point3f_t = Vec3f_t

datatype Color_t = Color (col_r: real) (col_g: real) (col_b: real)

datatype float4 = make_float4 (f4_x: real) (f4_y: real) (f4_z: real) (f4_w: real)

fun vadd :: "Vec3f_t \<Rightarrow> Vec3f_t \<Rightarrow> Vec3f_t" where
  "vadd (Vec3f a b c) (Vec3f a' b' c') = Vec3f (a + a') (b + b') (c + c')"

fun vsub :: "Vec3f_t \<Rightarrow> Vec3f_t \<Rightarrow> Vec3f_t" where
  "vsub (Vec3f a b c) (Vec3f a' b' c') = Vec3f (a - a') (b - b') (c - c')"

fun vscale :: "Vec3f_t \<Rightarrow> real \<Rightarrow> Vec3f_t" where
  "vscale (Vec3f a b c) k = Vec3f (a * k) (b * k) (c * k)"

fun vneg :: "Vec3f_t \<Rightarrow> Vec3f_t" where
  "vneg (Vec3f a b c) = Vec3f (- a) (- b) (- c)"

fun dot :: "Vec3f_t \<Rightarrow> Vec3f_t \<Rightarrow> real" where
  "dot (Vec3f a b c) (Vec3f a' b' c') = a * a' + b * b' + c * c'"

text \<open>\<open>v / s\<close> on a vector: each component divided by \<open>s\<close>.\<close>

definition vdiv :: "Vec3f_t \<Rightarrow> real \<Rightarrow> Vec3f_t option" where
  "vdiv v s = (if s = 0 then None else Some (Vec3f (vec_x v / s) (vec_y v / s) (vec_z v / s)))"

fun cadd :: "Color_t \<Rightarrow> Color_t \<Rightarrow> Color_t" where
  "cadd (Color a b c) (Color a' b' c') = Color (a + a') (b + b') (c + c')"

fun cmul :: "Color_t \<Rightarrow> Color_t \<Rightarrow> Color_t" where
  "cmul (Color a b c) (Color a' b' c') = Color (a * a') (b * b') (c * c')"

fun cscale :: "Color_t \<Rightarrow> real \<Rightarrow> Color_t" where
  "cscale (Color a b c) k = Color (a * k) (b * k) (c * k)"

text \<open>\<open>Color_t(v)\<close>: the one-argument constructor sets the three channels to \<open>v\<close>.\<close>

definition Color1 :: "real \<Rightarrow> Color_t" where
  "Color1 v = Color v v v"

text \<open>
  Modelled from the spec: \<open>lerp\<close> on colours (\<open>Color.cuh\<close> is not among the sources).
  The spec has the aging transforms "linearly interpolate base color toward rust_color by
  rust_amount": factor 0 gives the first colour, factor 1 the second.
\<close>

definition lerp :: "Color_t \<Rightarrow> Color_t \<Rightarrow> real \<Rightarrow> Color_t" where
  "lerp a b t = cadd (cscale a (1 - t)) (cscale b t)"

section \<open>Noise and the aging transforms (AgingEffects.cu)\<close>

definition hash :: "real \<Rightarrow> real" where
  "hash n = (let x = sin n * 43758.5453 in x - of_int \<lfloor>x\<rfloor>)"

text \<open>
  \<open>noise\<close> computes the smoothed fractional offsets \<open>x, y, z\<close> as the source does;
  the returned expression does not mention them.
\<close>

definition noise :: "Point3f_t \<Rightarrow> real" where
  "noise point =
    (let px = of_int \<lfloor>vec_x point\<rfloor>; py = of_int \<lfloor>vec_y point\<rfloor>; pz = of_int \<lfloor>vec_z point\<rfloor>;
         x = vec_x point - px;
         y = vec_y point - py;
         z = vec_z point - pz;
         px = hash px;
         py = hash py;
         pz = hash pz;
         x = x * x * (3 - 2 * x);
         y = y * y * (3 - 2 * y);
         z = z * z * (3 - 2 * z)
     in hash (px + py * 57 + pz * 113))"

record RustParameters =
  oxidation_level :: real
  surface_roughness :: real
  pattern_scale :: real
  rust_padding :: real
  rust_color :: Color_t

record PaintAgingParameters =
  peeling_amount :: real
  crack_density :: real
  weathering :: real
  paint_padding :: real
  underlay_color :: Color_t

definition applyRustEffect ::
  "Color_t \<Rightarrow> Point3f_t \<Rightarrow> RustParameters \<Rightarrow> real \<Rightarrow> Color_t option" where
  "applyRustEffect base_color point params noise_value =
    (let pattern = noise (vscale point (pattern_scale params));
         rust_amount = pattern * oxidation_level params;
         rusted_color = lerp base_color (rust_color params) rust_amount;
         roughness_factor = 1 + surface_roughness params * rust_amount
     in case fdiv 1 roughness_factor of
          None \<Rightarrow> None
        | Some k \<Rightarrow> Some (cscale rusted_color k))"

text \<open>The named locals of \<open>applyPaintAging\<close>, each as the source computes it.\<close>

definition crack_pattern :: "Point3f_t \<Rightarrow> PaintAgingParameters \<Rightarrow> real" where
  "crack_pattern point params = noise (vscale point (1 + crack_density params * 10))"

definition peel_threshold :: "PaintAgingParameters \<Rightarrow> real" where
  "peel_threshold params = 1 - peeling_amount params"

definition peel_factor :: "PaintAgingParameters \<Rightarrow> real \<Rightarrow> real" where
  "peel_factor params noise_value = (if noise_value > peel_threshold params then 1 else 0)"

definition aged_color :: "Color_t \<Rightarrow> PaintAgingParameters \<Rightarrow> Color_t" where
  "aged_color base_color params = cscale base_color (1 - weathering params * 0.3)"

definition applyPaintAging ::
  "Color_t \<Rightarrow> Point3f_t \<Rightarrow> PaintAgingParameters \<Rightarrow> real \<Rightarrow> Color_t" where
  "applyPaintAging base_color point params noise_value =
    (let final_color = lerp (aged_color base_color params) (underlay_color params)
                            (peel_factor params noise_value)
     in if crack_pattern point params < crack_density params * 0.2
        then cscale final_color 0.7
        else final_color)"

section \<open>Rays, intersection records and scene objects\<close>

text \<open>
  Modelled from the spec: \<open>Ray_t\<close> (\<open>Ray.cuh\<close> is not among the sources). The spec
  gives a ray an origin, a normalized direction, a validity interval for the hit distance
  and a tag (primary or secondary) without behaviour of its own. \<open>ray.at(t)\<close> is the
  point at distance \<open>t\<close> along the ray.
\<close>

datatype Ray_Type = PRIMARY | SECONDARY

record Ray_t =
  origin :: Point3f_t
  direction :: Vec3f_t
  t_min :: real
  t_max :: real
  ray_type :: Ray_Type

definition ray_at :: "Ray_t \<Rightarrow> real \<Rightarrow> Point3f_t" where
  "ray_at ray t = vadd (origin ray) (vscale (direction ray) t)"

text \<open>A \<open>Material_t*\<close> is an address; the material it points to is looked up in the environment.\<close>

type_synonym Material_ptr = nat

record Intersection_t =
  point :: Point3f_t
  normal :: Vec3f_t
  distance :: real
  color :: Color_t
  frontFace :: bool
  emission :: Color_t
  hit :: bool
  material :: Material_ptr

text \<open>
  Modelled from the spec: \<open>setFaceNormal\<close> (\<open>Intersection.cuh\<close> is not among the
  sources). The spec's front-face correction flips the surface normal so that it always
  opposes the incoming ray, and the record keeps which side was hit.
\<close>

definition setFaceNormal :: "Intersection_t \<Rightarrow> Ray_t \<Rightarrow> Vec3f_t \<Rightarrow> Intersection_t" where
  "setFaceNormal isect ray outward_normal =
    (let ff = dot (direction ray) outward_normal < 0
     in isect\<lparr>frontFace := ff, normal := (if ff then outward_normal else vneg outward_normal)\<rparr>)"

text \<open>
  \<open>GPUSphere\<close>, \<open>GPUPlane\<close> and \<open>GPUCamera\<close> are declared in
  \<open>raytracer_kernel.cuh\<close>, not among the sources; their fields are the ones
  \<open>AgingEffects.cu\<close> reads and writes.
\<close>

record GPUSphere =
  sphere_center :: Vec3f_t
  sphere_radius :: real
  sphere_material :: Material_ptr
  sphere_is_emissive :: bool
  sphere_emission :: Vec3f_t

record GPUPlane =
  plane_point :: Vec3f_t
  plane_normal :: Vec3f_t
  plane_material :: Material_ptr

record GPUCamera =
  cam_origin :: Vec3f_t
  cam_forward :: Vec3f_t
  cam_right :: Vec3f_t
  cam_up :: Vec3f_t
  cam_fov :: real
  cam_width :: int
  cam_height :: int

definition Color_fromFloat3 :: "Vec3f_t \<Rightarrow> Color_t" where
  "Color_fromFloat3 v = Color (vec_x v) (vec_y v) (vec_z v)"

section \<open>Materials, random numbers and the environment\<close>

record ScatterRecord_t =
  attenuation :: Color_t
  scattered_ray :: Ray_t
  pdf :: real
  is_specular :: bool

text \<open>
  \<open>Material_t\<close> is an abstract class (\<open>Material.cuh\<close> is not among the sources):
  a material is its three virtual functions. \<open>scatter\<close> returns \<open>false\<close> or fills a
  scatter record, and advances the random state \<open>'r\<close> it is given.
\<close>

record 'r Material_t =
  emitted :: "Ray_t \<Rightarrow> Intersection_t \<Rightarrow> Color_t"
  scatter :: "Ray_t \<Rightarrow> Intersection_t \<Rightarrow> 'r \<Rightarrow> ScatterRecord_t option \<times> 'r"
  scatteringPdf :: "Ray_t \<Rightarrow> Intersection_t \<Rightarrow> Ray_t \<Rightarrow> real"

text \<open>
  What \<open>AgingEffects.cu\<close> uses and does not define is a parameter of the embedding:
  \<^item> \<open>isValidDistance\<close>: the test of a distance against a ray's validity interval;
  \<^item> \<open>FLOAT_MAX\<close>: the constant the closest distance starts from;
  \<^item> \<open>default_isect\<close>: the fields of a default-constructed \<open>Intersection_t\<close>;
  \<^item> \<open>Ray_ctor\<close>: the constructor \<open>Ray_t(origin, direction, type)\<close>;
  \<^item> \<open>material_at\<close>: the material behind a material pointer;
  \<^item> \<open>curand_init\<close> and \<open>curand_uniform\<close>: the cuRAND generator, with its state \<open>'r\<close>.
\<close>

record 'r env =
  isValidDistance :: "Ray_t \<Rightarrow> real \<Rightarrow> bool"
  FLOAT_MAX :: real
  default_isect :: Intersection_t
  Ray_ctor :: "Vec3f_t \<Rightarrow> Vec3f_t \<Rightarrow> Ray_Type \<Rightarrow> Ray_t"
  material_at :: "Material_ptr \<Rightarrow> 'r Material_t"
  curand_init :: "64 word \<Rightarrow> 'r"
  curand_uniform :: "'r \<Rightarrow> real \<times> 'r"

text \<open>The device constants: camera, the two object arrays (16 cells each) and the two counts.\<close>

record gpu_state =
  d_camera :: GPUCamera
  d_spheres :: "GPUSphere list"
  d_planes :: "GPUPlane list"
  d_num_spheres :: int
  d_num_planes :: int

section \<open>Intersection tests\<close>

text \<open>
  The root chosen by \<open>intersectSphere\<close> (written \<open>root'\<close>, as \<open>root\<close> is a constant
  of HOL): the smaller one, else the larger one, else the early return (\<open>None\<close>). The
  divisor \<open>a\<close> is the literal 1.
\<close>

definition sphere_root :: "'r env \<Rightarrow> Ray_t \<Rightarrow> real \<Rightarrow> real \<Rightarrow> real \<Rightarrow> real option" where
  "sphere_root E ray a half_b sqrtd =
    (let root' = (- half_b - sqrtd) / a
     in if \<not> isValidDistance E ray root'
        then (let root' = (- half_b + sqrtd) / a
              in if \<not> isValidDistance E ray root' then None else Some root')
        else Some root')"

definition intersectSphere :: "'r env \<Rightarrow> Ray_t \<Rightarrow> GPUSphere \<Rightarrow> Intersection_t option" where
  "intersectSphere E ray sphere =
    (let isect = (default_isect E)\<lparr>hit := False\<rparr>;
         center = sphere_center sphere;
         oc = vsub (origin ray) center;
         a = 1;
         half_b = dot oc (direction ray);
         c = dot oc oc - sphere_radius sphere * sphere_radius sphere;
         discriminant = half_b * half_b - a * c
     in if discriminant < 0 then Some isect
        else
          (case sphere_root E ray a half_b (sqrt discriminant) of
             None \<Rightarrow> Some isect
           | Some root' \<Rightarrow>
               (let isect = isect\<lparr>hit := True, distance := root', point := ray_at ray root'\<rparr>
                in case vdiv (vsub (point isect) center) (sphere_radius sphere) of
                     None \<Rightarrow> None
                   | Some n \<Rightarrow>
                       (let isect = isect\<lparr>normal := n, material := sphere_material sphere\<rparr>;
                            isect = setFaceNormal isect ray (normal isect)
                        in Some (if sphere_is_emissive sphere
                                 then isect\<lparr>emission := Color_fromFloat3 (sphere_emission sphere)\<rparr>
                                 else isect)))))"

text \<open>In \<open>intersectPlane\<close> the division by \<open>denom\<close> comes after the test that \<open>denom\<close> is not near zero.\<close>

definition intersectPlane :: "'r env \<Rightarrow> Ray_t \<Rightarrow> GPUPlane \<Rightarrow> Intersection_t" where
  "intersectPlane E ray plane =
    (let isect = (default_isect E)\<lparr>hit := False\<rparr>;
         pn = plane_normal plane;
         pp = plane_point plane;
         denom = dot pn (direction ray)
     in if \<bar>denom\<bar> < 1 / 1000000 then isect
        else
          (let t = dot (vsub pp (origin ray)) pn / denom
           in if \<not> isValidDistance E ray t then isect
              else
                (let isect = isect\<lparr>hit := True, distance := t, point := ray_at ray t,
                                   normal := pn, material := plane_material plane\<rparr>
                 in setFaceNormal isect ray pn)))"

text \<open>
  One pass of a loop body of \<open>intersectScene\<close>: the pair is \<open>(closest_hit, closest_dist)\<close>.
\<close>

definition closer :: "Intersection_t \<Rightarrow> Intersection_t \<times> real \<Rightarrow> Intersection_t \<times> real" where
  "closer isect acc =
    (if hit isect \<and> distance isect < snd acc then (isect, distance isect) else acc)"

fun scan_spheres ::
  "'r env \<Rightarrow> Ray_t \<Rightarrow> GPUSphere list \<Rightarrow> Intersection_t \<times> real \<Rightarrow> (Intersection_t \<times> real) option" where
  "scan_spheres E ray [] acc = Some acc"
| "scan_spheres E ray (s # ss) acc =
    (case intersectSphere E ray s of
       None \<Rightarrow> None
     | Some sphere_isect \<Rightarrow> scan_spheres E ray ss (closer sphere_isect acc))"

fun scan_planes ::
  "'r env \<Rightarrow> Ray_t \<Rightarrow> GPUPlane list \<Rightarrow> Intersection_t \<times> real \<Rightarrow> Intersection_t \<times> real" where
  "scan_planes E ray [] acc = acc"
| "scan_planes E ray (p # ps) acc = scan_planes E ray ps (closer (intersectPlane E ray p) acc)"

text \<open>
  The loops read \<open>d_spheres[i]\<close> for \<open>0 \<le> i < d_num_spheres\<close> and \<open>d_planes[i]\<close> for
  \<open>0 \<le> i < d_num_planes\<close>. A count beyond its array reads past the end of constant
  memory, which C++ leaves undefined: \<open>None\<close>.
\<close>

definition intersectScene :: "'r env \<Rightarrow> gpu_state \<Rightarrow> Ray_t \<Rightarrow> Intersection_t option" where
  "intersectScene E G ray =
    (if nat (d_num_spheres G) > length (d_spheres G) \<or> nat (d_num_planes G) > length (d_planes G)
     then None
     else
       (let closest_hit = (default_isect E)\<lparr>hit := False\<rparr>;
            closest_dist = FLOAT_MAX E
        in case scan_spheres E ray (take (nat (d_num_spheres G)) (d_spheres G))
                  (closest_hit, closest_dist) of
             None \<Rightarrow> None
           | Some acc \<Rightarrow>
               Some (fst (scan_planes E ray (take (nat (d_num_planes G)) (d_planes G)) acc))))"

section \<open>The path integrator\<close>

text \<open>
  The Russian roulette block of \<open>traceRay\<close>: the path is terminated (the \<open>break\<close>)
  or goes on with a throughput, and the random state is advanced by the draw when there is one.
\<close>

datatype 'r roulette = Terminated 'r | Survived Color_t 'r

definition russian_roulette :: "'r env \<Rightarrow> int \<Rightarrow> Color_t \<Rightarrow> 'r \<Rightarrow> 'r roulette option" where
  "russian_roulette E depth throughput rand_state =
    (if depth > 3
     then (let p = max (col_r throughput) (max (col_g throughput) (col_b throughput));
               (u, rand_state) = curand_uniform E rand_state
           in if u > p then Some (Terminated rand_state)
              else (case fdiv 1 p of
                      None \<Rightarrow> None
                    | Some k \<Rightarrow> Some (Survived (cscale throughput k) rand_state)))
     else Some (Survived throughput rand_state))"

text \<open>
  One iteration of the loop of \<open>traceRay\<close> at bounce index \<open>depth\<close>: it leaves the loop
  with the final colour (\<open>Break\<close>), or hands ray, final colour and throughput to the next
  iteration (\<open>Continue\<close>).
\<close>

datatype 'r bounce = Break Color_t 'r | Continue Ray_t Color_t Color_t 'r

definition traceRay_body ::
  "'r env \<Rightarrow> gpu_state \<Rightarrow> int \<Rightarrow> Ray_t \<Rightarrow> Color_t \<Rightarrow> Color_t \<Rightarrow> 'r \<Rightarrow> 'r bounce option" where
  "traceRay_body E G depth ray final_color throughput rand_state =
    (case intersectScene E G ray of
       None \<Rightarrow> None
     | Some isect \<Rightarrow>
         if \<not> hit isect then Some (Break final_color rand_state)
         else
           (let mat = material_at E (material isect);
                final_color = cadd final_color (cmul throughput (emitted mat ray isect))
            in case scatter mat ray isect rand_state of
                 (None, rand_state) \<Rightarrow> Some (Break final_color rand_state)
               | (Some srec, rand_state) \<Rightarrow>
                   if is_specular srec
                   then Some (Continue (scattered_ray srec) final_color
                                (cmul throughput (attenuation srec)) rand_state)
                   else
                     (let ray = scattered_ray srec;
                          brdf = cscale (attenuation srec)
                                   (scatteringPdf mat ray isect (scattered_ray srec))
                      in case fdiv 1 (pdf srec) of
                           None \<Rightarrow> None
                         | Some k \<Rightarrow>
                             (let throughput = cmul throughput (cscale brdf k)
                              in case russian_roulette E depth throughput rand_state of
                                   None \<Rightarrow> None
                                 | Some (Terminated rand_state) \<Rightarrow>
                                     Some (Break final_color rand_state)
                                 | Some (Survived throughput rand_state) \<Rightarrow>
                                     Some (Continue ray final_color throughput rand_state)))))"

function traceRay_loop ::
  "'r env \<Rightarrow> gpu_state \<Rightarrow> int \<Rightarrow> int \<Rightarrow> Ray_t \<Rightarrow> Color_t \<Rightarrow> Color_t \<Rightarrow> 'r \<Rightarrow> (Color_t \<times> 'r) option" where
  "traceRay_loop E G max_depth depth ray final_color throughput rand_state =
    (if depth < max_depth
     then (case traceRay_body E G depth ray final_color throughput rand_state of
             None \<Rightarrow> None
           | Some (Break final_color rand_state) \<Rightarrow> Some (final_color, rand_state)
           | Some (Continue ray final_color throughput rand_state) \<Rightarrow>
               traceRay_loop E G max_depth (depth + 1) ray final_color throughput rand_state)
     else Some (final_color, rand_state))"
  by pat_completeness auto
termination
  by (relation "measure (\<lambda>(E, G, max_depth, depth, ray, final_color, throughput, rand_state).
        nat (max_depth - depth))") auto

text \<open>\<open>traceRay\<close> returns the colour; the random state it leaves behind is returned with it.\<close>

definition traceRay :: "'r env \<Rightarrow> gpu_state \<Rightarrow> Ray_t \<Rightarrow> 'r \<Rightarrow> int \<Rightarrow> (Color_t \<times> 'r) option" where
  "traceRay E G ray rand_state max_depth =
    traceRay_loop E G max_depth 0 ray (Color1 0) (Color1 1) rand_state"

section \<open>The render kernel\<close>

text \<open>
  \<open>normalized()\<close> of \<open>Vec3.cuh\<close> (not among the sources): the vector divided by its length.
\<close>

definition normalized :: "Vec3f_t \<Rightarrow> Vec3f_t option" where
  "normalized v = vdiv v (sqrt (dot v v))"

definition generateCameraRay :: "'r env \<Rightarrow> gpu_state \<Rightarrow> real \<Rightarrow> real \<Rightarrow> Ray_t option" where
  "generateCameraRay E G u v =
    (let cam = d_camera G
     in case fdiv (of_int (cam_width cam)) (of_int (cam_height cam)) of
          None \<Rightarrow> None
        | Some aspect_ratio \<Rightarrow>
            (let viewport_height = 2 * tan (cam_fov cam * 0.5);
                 viewport_width = aspect_ratio * viewport_height;
                 x_offset = (2 * u - 1) * viewport_width * 0.5;
                 y_offset = (2 * v - 1) * viewport_height * 0.5;
                 ray_direction = vadd (vadd (cam_forward cam) (vscale (cam_right cam) x_offset))
                                      (vscale (cam_up cam) y_offset)
             in case normalized ray_direction of
                  None \<Rightarrow> None
                | Some ray_direction \<Rightarrow> Some (Ray_ctor E (cam_origin cam) ray_direction PRIMARY)))"

text \<open>
  The coordinates of one thread of the launch. The index arithmetic of the kernel is that of
  \<open>unsigned int\<close> (32 bits, wrapping); an \<open>int\<close> holding such a value has the same bits.
\<close>

record thread_ctx =
  blockIdx_x :: "32 word"
  blockIdx_y :: "32 word"
  blockDim_x :: "32 word"
  blockDim_y :: "32 word"
  threadIdx_x :: "32 word"
  threadIdx_y :: "32 word"
  gridDim_x :: "32 word"

definition initRand :: "'r env \<Rightarrow> thread_ctx \<Rightarrow> 32 word \<Rightarrow> 'r" where
  "initRand E T seed =
    (let idx = blockIdx_x T * blockDim_x T + threadIdx_x T;
         idy = blockIdx_y T * blockDim_y T + threadIdx_y T;
         offset = idy * gridDim_x T * blockDim_x T + idx
     in curand_init E (ucast (seed + offset)))"

text \<open>
  The accumulation at the end of \<open>renderKernel\<close>: the colour that is written, from the
  frame count, the previous content of the cell and the new sample. \<open>frame_count + 1\<close> is
  computed in \<open>uint32_t\<close> and converted to \<open>float\<close> for the division.
\<close>

definition accumulate :: "32 word \<Rightarrow> float4 \<Rightarrow> Color_t \<Rightarrow> Color_t option" where
  "accumulate frame_count prev_color pixel_color =
    (if frame_count > 0
     then (case fdiv 1 (real (unat (frame_count + 1))) of
             None \<Rightarrow> None
           | Some t \<Rightarrow>
               Some (cadd (cscale pixel_color t)
                          (cscale (Color (f4_x prev_color) (f4_y prev_color) (f4_z prev_color)) (1 - t))))
     else Some pixel_color)"

text \<open>
  One thread of \<open>renderKernel\<close> on the output buffer. An index outside the buffer is an
  access C++ leaves undefined: \<open>None\<close>.
\<close>

definition renderKernel ::
  "'r env \<Rightarrow> gpu_state \<Rightarrow> thread_ctx \<Rightarrow> float4 list \<Rightarrow> 32 word \<Rightarrow> 32 word \<Rightarrow> 32 word \<Rightarrow> float4 list option" where
  "renderKernel E G T output width height frame_count =
    (let x = blockIdx_x T * blockDim_x T + threadIdx_x T;
         y = blockIdx_y T * blockDim_y T + threadIdx_y T
     in if x \<ge> width \<or> y \<ge> height then Some output
        else
          (let pixel_index = sint (y * width + x);
               rand_state = initRand E T (frame_count * width * height + (y * width + x));
               (r1, rand_state) = curand_uniform E rand_state;
               (r2, rand_state) = curand_uniform E rand_state
           in case (fdiv (of_int (sint x) + r1) (real (unat width)),
                    fdiv (of_int (sint y) + r2) (real (unat height))) of
                (Some u, Some v) \<Rightarrow>
                  (case generateCameraRay E G u v of
                     None \<Rightarrow> None
                   | Some ray \<Rightarrow>
                       (case traceRay E G ray rand_state 50 of
                          None \<Rightarrow> None
                        | Some (pixel_color, rand_state) \<Rightarrow>
                            if pixel_index < 0 \<or> nat pixel_index \<ge> length output then None
                            else
                              (case accumulate frame_count (output ! nat pixel_index) pixel_color of
                                 None \<Rightarrow> None
                               | Some pixel_color \<Rightarrow>
                                   Some (output[nat pixel_index :=
                                           make_float4 (col_r pixel_color) (col_g pixel_color)
                                             (col_b pixel_color) 1]))))
              | _ \<Rightarrow> None))"

section \<open>The host/device scene bridge\<close>

text \<open>
  The host-side classes (\<open>Camera.cuh\<close>, \<open>Scene.cuh\<close> and the object classes are not
  among the sources) are records of what their getters return. An implicit object answers
  \<open>isSphere()\<close> as a sphere, \<open>isPlane()\<close> as a plane, or neither.
\<close>

record Camera_t =
  getPosition :: Vec3f_t
  getForward :: Vec3f_t
  getRight :: Vec3f_t
  getUp :: Vec3f_t
  getSettings_fov :: real
  getWidth :: int
  getHeight :: int

record Sphere_t =
  getCenter :: Vec3f_t
  getRadius :: real
  getMaterial :: Material_ptr
  isEmissive :: bool
  getEmissionColor :: Color_t
  getEmissionStrength :: real

record Plane_t =
  getPoint :: Vec3f_t
  getNormal :: Vec3f_t
  getPlaneMaterial :: Material_ptr

datatype ImplicitObject_t = Sphere Sphere_t | Plane Plane_t | OtherObject

text \<open>
  A device pointer is \<open>nullptr\<close>, an address \<open>cudaMemcpy\<close> cannot read (it reports an
  error), or the address of a value in device memory.
\<close>

datatype 'a devptr = Null | Dangling | Ptr 'a

record Scene_t =
  implicit_object_count :: int
  d_implicit_objects :: "ImplicitObject_t list devptr"

text \<open>
  \<open>CUDA_CHECK\<close> (\<open>Error.cuh\<close> is not among the sources) turns a failed runtime call
  into an exception; the \<open>catch\<close> block of \<open>initializeGPUData\<close> rethrows it.
\<close>

datatype error = runtime_error string | cuda_error

definition cudaMemcpy_struct :: "'a devptr \<Rightarrow> 'a option" where
  "cudaMemcpy_struct p = (case p of Ptr v \<Rightarrow> Some v | _ \<Rightarrow> None)"

text \<open>Copying \<open>n\<close> cells from a device array; an array shorter than \<open>n\<close> cannot be read.\<close>

definition cudaMemcpy_array :: "'a list devptr \<Rightarrow> nat \<Rightarrow> 'a list option" where
  "cudaMemcpy_array p n =
    (case p of Ptr vs \<Rightarrow> if n \<le> length vs then Some (take n vs) else None | _ \<Rightarrow> None)"

text \<open>
  \<open>cudaMemcpyToSymbol\<close> into an array in constant memory: the copy overwrites the first
  cells; the runtime rejects a copy larger than the symbol and changes nothing. The source
  does not look at the status the call returns.
\<close>

definition cudaMemcpyToSymbol :: "'a list \<Rightarrow> 'a list \<Rightarrow> 'a list" where
  "cudaMemcpyToSymbol symbol src =
    (if length src \<le> length symbol then src @ drop (length src) symbol else symbol)"

definition toGPUSphere :: "Sphere_t \<Rightarrow> GPUSphere" where
  "toGPUSphere sphere =
    \<lparr>sphere_center = getCenter sphere,
     sphere_radius = getRadius sphere,
     sphere_material = getMaterial sphere,
     sphere_is_emissive = isEmissive sphere,
     sphere_emission =
       (if isEmissive sphere
        then (let emission = cscale (getEmissionColor sphere) (getEmissionStrength sphere)
              in Vec3f (col_r emission) (col_g emission) (col_b emission))
        else Vec3f 0 0 0)\<rparr>"

definition toGPUPlane :: "Plane_t \<Rightarrow> GPUPlane" where
  "toGPUPlane plane =
    \<lparr>plane_point = getPoint plane,
     plane_normal = getNormal plane,
     plane_material = getPlaneMaterial plane\<rparr>"

text \<open>The two conversion loops: every object in turn, spheres (planes) appended in order.\<close>

fun convert_spheres :: "ImplicitObject_t list \<Rightarrow> GPUSphere list" where
  "convert_spheres [] = []"
| "convert_spheres (Sphere sphere # objs) = toGPUSphere sphere # convert_spheres objs"
| "convert_spheres (obj # objs) = convert_spheres objs"

fun convert_planes :: "ImplicitObject_t list \<Rightarrow> GPUPlane list" where
  "convert_planes [] = []"
| "convert_planes (Plane plane # objs) = toGPUPlane plane # convert_planes objs"
| "convert_planes (obj # objs) = convert_planes objs"

definition toGPUCamera :: "Camera_t \<Rightarrow> GPUCamera" where
  "toGPUCamera camera =
    \<lparr>cam_origin = getPosition camera,
     cam_forward = getForward camera,
     cam_right = getRight camera,
     cam_up = getUp camera,
     cam_fov = getSettings_fov camera * pi / 180,
     cam_width = getWidth camera,
     cam_height = getHeight camera\<rparr>"

text \<open>
  \<open>initializeGPUData\<close> returns normally (\<open>Inr ()\<close>) or throws (\<open>Inl\<close>); the second
  component is the content of constant memory afterwards. The host allocation
  \<open>new ImplicitObject_t*[n]\<close> is taken to succeed, and the object pointers of the array
  to be valid.
\<close>

definition initializeGPUData ::
  "Camera_t \<Rightarrow> Scene_t devptr \<Rightarrow> gpu_state \<Rightarrow> (error + unit) \<times> gpu_state" where
  "initializeGPUData camera d_scene G =
    (if d_scene = Null
     then (Inl (runtime_error ''Scene pointer is null in initializeGPUData''), G)
     else
       (case cudaMemcpy_struct d_scene of
          None \<Rightarrow> (Inl cuda_error, G)
        | Some h_scene \<Rightarrow>
            (let G = G\<lparr>d_camera := toGPUCamera camera\<rparr>
             in if implicit_object_count h_scene \<le> 0 \<or> d_implicit_objects h_scene = Null
                then (Inr (), G\<lparr>d_num_spheres := 0, d_num_planes := 0\<rparr>)
                else
                  (case cudaMemcpy_array (d_implicit_objects h_scene)
                          (nat (implicit_object_count h_scene)) of
                     None \<Rightarrow> (Inl cuda_error, G)
                   | Some h_implicit_objects \<Rightarrow>
                       (let h_spheres = convert_spheres h_implicit_objects;
                            h_planes = convert_planes h_implicit_objects;
                            num_spheres = int (length h_spheres);
                            G = G\<lparr>d_num_spheres := num_spheres\<rparr>;
                            G = (if num_spheres > 0
                                 then G\<lparr>d_spheres := cudaMemcpyToSymbol (d_spheres G) h_spheres\<rparr>
                                 else G);
                            num_planes = int (length h_planes);
                            G = G\<lparr>d_num_planes := num_planes\<rparr>;
                            G = (if num_planes > 0
                                 then G\<lparr>d_planes := cudaMemcpyToSymbol (d_planes G) h_planes\<rparr>
                                 else G)
                        in (Inr (), G))))))"

section \<open>Vocabulary of the properties\<close>

text \<open>
  The ray/sphere quadratic \<open>t\<^sup>2 + 2 half_b t + c = 0\<close> of a ray \<open>origin + t direction\<close>
  against a sphere: its discriminant (a quarter of the usual one) and its two roots.
\<close>

definition sphere_half_b :: "Ray_t \<Rightarrow> GPUSphere \<Rightarrow> real" where
  "sphere_half_b ray sphere = dot (vsub (origin ray) (sphere_center sphere)) (direction ray)"

definition sphere_discriminant :: "Ray_t \<Rightarrow> GPUSphere \<Rightarrow> real" where
  "sphere_discriminant ray sphere =
    (sphere_half_b ray sphere)\<^sup>2
      - (dot (vsub (origin ray) (sphere_center sphere)) (vsub (origin ray) (sphere_center sphere))
         - (sphere_radius sphere)\<^sup>2)"

definition smaller_root :: "Ray_t \<Rightarrow> GPUSphere \<Rightarrow> real" where
  "smaller_root ray sphere = - sphere_half_b ray sphere - sqrt (sphere_discriminant ray sphere)"

definition larger_root :: "Ray_t \<Rightarrow> GPUSphere \<Rightarrow> real" where
  "larger_root ray sphere = - sphere_half_b ray sphere + sqrt (sphere_discriminant ray sphere)"

text \<open>A point lies on the surface of a sphere.\<close>

definition on_sphere :: "GPUSphere \<Rightarrow> Point3f_t \<Rightarrow> bool" where
  "on_sphere sphere p \<longleftrightarrow>
     dot (vsub p (sphere_center sphere)) (vsub p (sphere_center sphere)) = (sphere_radius sphere)\<^sup>2"

text \<open>
  What a hit record of a sphere at distance \<open>t\<close> holds: the hit flag, the distance, the
  hit point (on the sphere), the material, the outward normal \<open>(point - center) / radius\<close>
  turned against the ray with the side recorded, and the sphere's stored emission when the
  sphere is emissive (the default-constructed value otherwise).
\<close>

definition sphere_hit_record :: "'r env \<Rightarrow> Ray_t \<Rightarrow> GPUSphere \<Rightarrow> real \<Rightarrow> Intersection_t \<Rightarrow> bool" where
  "sphere_hit_record E ray sphere t isect \<longleftrightarrow>
     hit isect \<and> distance isect = t \<and> point isect = ray_at ray t
   \<and> on_sphere sphere (point isect)
   \<and> material isect = sphere_material sphere
   \<and> (\<exists>n. vdiv (vsub (point isect) (sphere_center sphere)) (sphere_radius sphere) = Some n
          \<and> frontFace isect = (dot (direction ray) n < 0)
          \<and> normal isect = (if frontFace isect then n else vneg n))
   \<and> dot (direction ray) (normal isect) \<le> 0
   \<and> emission isect = (if sphere_is_emissive sphere then Color_fromFloat3 (sphere_emission sphere)
                       else emission (default_isect E))"

text \<open>
  In a list of intersection records in scan order, index \<open>i\<close> is the first closest hit:
  a hit, no hit of the list is nearer, and every hit before it is strictly farther.
\<close>

definition first_closest :: "Intersection_t list \<Rightarrow> nat \<Rightarrow> bool" where
  "first_closest cs i \<longleftrightarrow>
     i < length cs \<and> hit (cs ! i)
   \<and> (\<forall>j < length cs. hit (cs ! j) \<longrightarrow> distance (cs ! i) \<le> distance (cs ! j))
   \<and> (\<forall>j < i. hit (cs ! j) \<longrightarrow> distance (cs ! i) < distance (cs ! j))"

text \<open>A record qualifies for the scene query: a hit at a distance below the starting value.\<close>

definition qualifies :: "real \<Rightarrow> Intersection_t \<Rightarrow> bool" where
  "qualifies fmax c \<longleftrightarrow> hit c \<and> distance c < fmax"

text \<open>The largest channel of a colour, and a colour divided by a number.\<close>

definition max_component :: "Color_t \<Rightarrow> real" where
  "max_component c = max (col_r c) (max (col_g c) (col_b c))"

definition cdivide :: "Color_t \<Rightarrow> real \<Rightarrow> Color_t" where
  "cdivide c p = Color (col_r c / p) (col_g c / p) (col_b c / p)"

section \<open>An example scene\<close>

text \<open>
  A concrete environment and scene, on which the properties below are exercised: rays valid
  on their closed interval, a mirror (material 0) and a diffuse surface (every other
  material), a generator that draws \<open>1/2\<close> every time and counts its draws.
\<close>

definition example_isect :: Intersection_t where
  "example_isect =
    \<lparr>point = Vec3f 0 0 0, normal = Vec3f 0 0 0, distance = 0, color = Color1 0,
     frontFace = False, emission = Color1 0, hit = False, material = 0\<rparr>"

definition example_mirror :: "nat Material_t" where
  "example_mirror =
    \<lparr>emitted = (\<lambda>ray isect. Color1 0),
     scatter = (\<lambda>ray isect rs.
        (Some \<lparr>attenuation = Color1 (9 / 10),
               scattered_ray = ray\<lparr>origin := point isect, direction := normal isect\<rparr>,
               pdf = 1, is_specular = True\<rparr>, rs)),
     scatteringPdf = (\<lambda>ray isect scattered. 1)\<rparr>"

definition example_diffuse :: "nat Material_t" where
  "example_diffuse =
    \<lparr>emitted = (\<lambda>ray isect. Color1 0),
     scatter = (\<lambda>ray isect rs.
        (Some \<lparr>attenuation = Color (1 / 2) (1 / 4) (1 / 8),
               scattered_ray = ray\<lparr>origin := point isect, direction := normal isect\<rparr>,
               pdf = 1 / 2, is_specular = False\<rparr>, rs)),
     scatteringPdf = (\<lambda>ray isect scattered. 1 / 2)\<rparr>"

definition example_env :: "nat env" where
  "example_env =
    \<lparr>isValidDistance = (\<lambda>ray t. t_min ray \<le> t \<and> t \<le> t_max ray),
     FLOAT_MAX = 340282346638528859811704183484516925440,
     default_isect = example_isect,
     Ray_ctor = (\<lambda>orig dir ty. \<lparr>origin = orig, direction = dir, t_min = 1 / 1000,
                                 t_max = 340282346638528859811704183484516925440, ray_type = ty\<rparr>),
     material_at = (\<lambda>m. if m = 0 then example_mirror else example_diffuse),
     curand_init = unat,
     curand_uniform = (\<lambda>rs. (1 / 2, Suc rs))\<rparr>"

definition example_ray :: Ray_t where
  "example_ray =
    \<lparr>origin = Vec3f 0 0 0, direction = Vec3f 0 0 (- 1), t_min = 1 / 1000, t_max = 1000,
     ray_type = PRIMARY\<rparr>"

definition example_sphere :: "Vec3f_t \<Rightarrow> real \<Rightarrow> Material_ptr \<Rightarrow> GPUSphere" where
  "example_sphere c r m =
    \<lparr>sphere_center = c, sphere_radius = r, sphere_material = m,
     sphere_is_emissive = True, sphere_emission = Vec3f 2 3 4\<rparr>"

definition example_plane :: "real \<Rightarrow> Material_ptr \<Rightarrow> GPUPlane" where
  "example_plane h m = \<lparr>plane_point = Vec3f 0 0 h, plane_normal = Vec3f 0 0 1, plane_material = m\<rparr>"

definition example_camera :: GPUCamera where
  "example_camera =
    \<lparr>cam_origin = Vec3f 0 0 0, cam_forward = Vec3f 0 0 (- 1), cam_right = Vec3f 1 0 0,
     cam_up = Vec3f 0 1 0, cam_fov = pi / 2, cam_width = 4, cam_height = 4\<rparr>"

text \<open>Constant memory with the given objects in the first cells of the two arrays of 16.\<close>

definition example_state :: "GPUSphere list \<Rightarrow> GPUPlane list \<Rightarrow> gpu_state" where
  "example_state ss ps =
    \<lparr>d_camera = example_camera,
     d_spheres = ss @ replicate (16 - length ss) (example_sphere (Vec3f 0 0 0) 1 0),
     d_planes = ps @ replicate (16 - length ps) (example_plane 0 0),
     d_num_spheres = int (length ss),
     d_num_planes = int (length ps)\<rparr>"

definition example_host_camera :: Camera_t where
  "example_host_camera =
    \<lparr>getPosition = Vec3f 0 0 0, getForward = Vec3f 0 0 (- 1), getRight = Vec3f 1 0 0,
     getUp = Vec3f 0 1 0, getSettings_fov = 90, getWidth = 4, getHeight = 4\<rparr>"

definition example_host_sphere :: Sphere_t where
  "example_host_sphere =
    \<lparr>getCenter = Vec3f 0 0 (- 5), getRadius = 1, getMaterial = 1, isEmissive = True,
     getEmissionColor = Color 1 (1 / 2) (1 / 4), getEmissionStrength = 4\<rparr>"

section \<open>Properties of the aging transforms and of the noise\<close>

lemma lerp_zero: "lerp a b 0 = a"
  by (cases a; cases b) (simp add: lerp_def)

lemma cscale_one: "cscale c 1 = c"
  by (cases c) simp

lemma fraction_range: "0 \<le> x - of_int \<lfloor>x\<rfloor> \<and> x - of_int \<lfloor>x\<rfloor> < (1 :: real)"
  by linarith

lemma hash_range: "0 \<le> hash n \<and> hash n < 1"
  unfolding hash_def Let_def by (rule fraction_range)

lemma noise_range: "0 \<le> noise p \<and> noise p < 1"
  using hash_range by (simp add: noise_def Let_def)

text \<open>
  Claim C8. With \<open>oxidation_level = 0\<close>, \<open>applyRustEffect\<close> returns the base colour
  unchanged, for every base colour, world point, noise sample and every other parameter
  (pattern scale, roughness, rust colour): the rust amount is 0, the interpolation keeps
  the base colour and the roughness factor is 1.
\<close>

theorem applyRustEffect_no_oxidation:
  "applyRustEffect base_color pt (params\<lparr>oxidation_level := 0\<rparr>) noise_value = Some base_color"
  by (simp add: applyRustEffect_def fdiv_def lerp_zero cscale_one)

text \<open>
  Claim C9. With \<open>peeling_amount = 0\<close> and a noise sample below 1, \<open>applyPaintAging\<close>
  never takes the peel branch: the peel threshold is 1, the peel factor is 0, and the
  result is the weathered base colour (darkened by 0.7 on a crack), whatever the underlay
  colour is.
\<close>

theorem applyPaintAging_no_peeling:
  assumes "noise_value < 1"
  shows "peel_threshold (params\<lparr>peeling_amount := 0\<rparr>) = 1
       \<and> peel_factor (params\<lparr>peeling_amount := 0\<rparr>) noise_value = 0
       \<and> applyPaintAging base_color pt (params\<lparr>peeling_amount := 0\<rparr>) noise_value =
           (if crack_pattern pt params < crack_density params * 0.2
            then cscale (aged_color base_color params) 0.7
            else aged_color base_color params)
       \<and> applyPaintAging base_color pt (params\<lparr>peeling_amount := 0, underlay_color := ul\<rparr>) noise_value =
           applyPaintAging base_color pt (params\<lparr>peeling_amount := 0\<rparr>) noise_value"
  using assms
  by (simp add: applyPaintAging_def peel_factor_def peel_threshold_def lerp_zero
        aged_color_def crack_pattern_def)

theorem applyPaintAging_no_peeling_witness:
  "(1 / 2 :: real) < 1
   \<and> peel_factor (\<lparr>peeling_amount = 3 / 4, crack_density = 0, weathering = 1 / 2,
         paint_padding = 0, underlay_color = Color1 (3 / 10)\<rparr>\<lparr>peeling_amount := 0\<rparr>) (1 / 2) = 0
   \<and> applyPaintAging (Color 1 (1 / 2) (1 / 4)) (Vec3f 0 0 0)
        (\<lparr>peeling_amount = 3 / 4, crack_density = 0, weathering = 1 / 2,
          paint_padding = 0, underlay_color = Color1 (3 / 10)\<rparr>\<lparr>peeling_amount := 0\<rparr>) (1 / 2)
      = Color (17 / 20) (17 / 40) (17 / 80)"
proof -
  have h: "(1 / 2 :: real) < 1" by simp
  have n: "\<not> noise p < 0" for p
    using noise_range [of p] by simp
  show ?thesis
    using applyPaintAging_no_peeling [OF h, of
        "\<lparr>peeling_amount = 3 / 4, crack_density = 0, weathering = 1 / 2,
          paint_padding = 0, underlay_color = Color1 (3 / 10)\<rparr>"
        "Color 1 (1 / 2) (1 / 4)" "Vec3f 0 0 0"] n
    by (simp add: aged_color_def crack_pattern_def)
qed

text \<open>
  Claim C10. \<open>noise\<close> depends only on the componentwise floor of its input: two points
  whose coordinates have equal floors get the same value, and that value is
  \<open>hash (hash \<lfloor>x\<rfloor> + hash \<lfloor>y\<rfloor> * 57 + hash \<lfloor>z\<rfloor> * 113)\<close>; the smoothed fractional
  offsets do not reach the result.
\<close>

theorem noise_depends_on_floor_only:
  assumes "\<lfloor>vec_x p\<rfloor> = \<lfloor>vec_x q\<rfloor>" and "\<lfloor>vec_y p\<rfloor> = \<lfloor>vec_y q\<rfloor>" and "\<lfloor>vec_z p\<rfloor> = \<lfloor>vec_z q\<rfloor>"
  shows "noise p = noise q
       \<and> noise p = hash (hash (of_int \<lfloor>vec_x p\<rfloor>) + hash (of_int \<lfloor>vec_y p\<rfloor>) * 57
                          + hash (of_int \<lfloor>vec_z p\<rfloor>) * 113)"
  using assms by (simp add: noise_def Let_def)

theorem noise_depends_on_floor_only_witness:
  "noise (Vec3f (1 / 2) (3 / 2) (- 5 / 2)) = noise (Vec3f (1 / 4) (7 / 4) (- 17 / 8))
   \<and> noise (Vec3f (1 / 2) (3 / 2) (- 5 / 2)) = hash (hash 0 + hash 1 * 57 + hash (- 3) * 113)"
  using noise_depends_on_floor_only [of "Vec3f (1 / 2) (3 / 2) (- 5 / 2)" "Vec3f (1 / 4) (7 / 4) (- 17 / 8)"]
  by simp

section \<open>Properties of the intersection tests\<close>

lemma vsub_ray_at: "vsub (ray_at ray t) c = vadd (vsub (origin ray) c) (vscale (direction ray) t)"
  by (cases "origin ray"; cases "direction ray"; cases c) (simp add: ray_at_def)

lemma dot_expand:
  "dot (vadd a (vscale d t)) (vadd a (vscale d t)) = dot a a + 2 * t * dot a d + t\<^sup>2 * dot d d"
  by (cases a; cases d) (simp add: power2_eq_square algebra_simps)

lemma on_sphere_iff:
  assumes "dot (direction ray) (direction ray) = 1"
  shows "on_sphere sphere (ray_at ray t) \<longleftrightarrow>
           (t + sphere_half_b ray sphere)\<^sup>2 = sphere_discriminant ray sphere"
  unfolding on_sphere_def vsub_ray_at dot_expand assms sphere_discriminant_def sphere_half_b_def
  by (simp add: power2_eq_square algebra_simps)

text \<open>
  On a ray with normalized direction the two roots are the distances at which the ray meets
  the sphere, and there is none when the discriminant is negative.
\<close>

lemma roots_solve:
  assumes "dot (direction ray) (direction ray) = 1" "0 \<le> sphere_discriminant ray sphere"
  shows "on_sphere sphere (ray_at ray t) \<longleftrightarrow> t = smaller_root ray sphere \<or> t = larger_root ray sphere"
proof -
  let ?D = "sphere_discriminant ray sphere"
  have "(t + sphere_half_b ray sphere)\<^sup>2 = ?D \<longleftrightarrow> (t + sphere_half_b ray sphere)\<^sup>2 = (sqrt ?D)\<^sup>2"
    using assms(2) by simp
  also have "\<dots> \<longleftrightarrow> t + sphere_half_b ray sphere = sqrt ?D \<or> t + sphere_half_b ray sphere = - sqrt ?D"
    by (rule power2_eq_iff)
  also have "\<dots> \<longleftrightarrow> t = smaller_root ray sphere \<or> t = larger_root ray sphere"
    unfolding smaller_root_def larger_root_def by auto
  finally show ?thesis using on_sphere_iff [OF assms(1)] by simp
qed

lemma no_roots:
  assumes "dot (direction ray) (direction ray) = 1" "sphere_discriminant ray sphere < 0"
  shows "\<not> on_sphere sphere (ray_at ray t)"
proof
  assume "on_sphere sphere (ray_at ray t)"
  then have "(t + sphere_half_b ray sphere)\<^sup>2 = sphere_discriminant ray sphere"
    by (rule on_sphere_iff [OF assms(1), THEN iffD1])
  moreover have "0 \<le> (t + sphere_half_b ray sphere)\<^sup>2" by simp
  ultimately show False using assms(2) by linarith
qed

lemma roots_ordered:
  "0 \<le> sphere_discriminant ray sphere \<Longrightarrow> smaller_root ray sphere \<le> larger_root ray sphere"
  by (simp add: smaller_root_def larger_root_def)

lemma intersectSphere_unfold:
  "intersectSphere E ray sphere =
    (if sphere_discriminant ray sphere < 0 then Some ((default_isect E)\<lparr>hit := False\<rparr>)
     else case (if isValidDistance E ray (smaller_root ray sphere) then Some (smaller_root ray sphere)
                else if isValidDistance E ray (larger_root ray sphere) then Some (larger_root ray sphere)
                else None) of
          None \<Rightarrow> Some ((default_isect E)\<lparr>hit := False\<rparr>)
        | Some t \<Rightarrow>
           (case vdiv (vsub (ray_at ray t) (sphere_center sphere)) (sphere_radius sphere) of
              None \<Rightarrow> None
            | Some n \<Rightarrow>
               Some ((setFaceNormal ((default_isect E)\<lparr>hit := True, distance := t, point := ray_at ray t,
                        normal := n, material := sphere_material sphere\<rparr>) ray n)
                      \<lparr>emission := (if sphere_is_emissive sphere then Color_fromFloat3 (sphere_emission sphere)
                                     else emission (default_isect E))\<rparr>)))"
  by (auto simp add: intersectSphere_def sphere_root_def Let_def sphere_discriminant_def
       sphere_half_b_def smaller_root_def larger_root_def power2_eq_square setFaceNormal_def
       split: option.splits)


text \<open>The test has a finite result for every sphere of radius other than 0.\<close>

lemma intersectSphere_defined:
  "sphere_radius sphere \<noteq> 0 \<Longrightarrow> \<exists>isect. intersectSphere E ray sphere = Some isect"
  by (simp add: intersectSphere_unfold vdiv_def)

lemma dot_vneg: "dot d (vneg n) = - dot d n"
  by (cases d; cases n) simp

lemma sphere_hit_recordI:
  assumes "dot (direction ray) (direction ray) = 1" and "sphere_radius sphere \<noteq> 0"
    and "0 \<le> sphere_discriminant ray sphere"
    and "t = smaller_root ray sphere \<or> t = larger_root ray sphere"
  shows "\<exists>isect.
     (case vdiv (vsub (ray_at ray t) (sphere_center sphere)) (sphere_radius sphere) of
              None \<Rightarrow> None
            | Some n \<Rightarrow>
               Some ((setFaceNormal ((default_isect E)\<lparr>hit := True, distance := t, point := ray_at ray t,
                        normal := n, material := sphere_material sphere\<rparr>) ray n)
                      \<lparr>emission := (if sphere_is_emissive sphere then Color_fromFloat3 (sphere_emission sphere)
                                     else emission (default_isect E))\<rparr>)) = Some isect
     \<and> sphere_hit_record E ray sphere t isect"
proof -
  obtain n where n: "vdiv (vsub (ray_at ray t) (sphere_center sphere)) (sphere_radius sphere) = Some n"
    using assms(2) by (simp add: vdiv_def)
  have on: "on_sphere sphere (ray_at ray t)"
    using roots_solve [OF assms(1) assms(3)] assms(4) by simp
  show ?thesis
    using n on by (simp add: sphere_hit_record_def setFaceNormal_def Let_def dot_vneg)
qed

text \<open>
  Claim C5. For a ray with normalized direction and a sphere (of radius other than 0, so
  that the normal \<open>(point - center) / radius\<close> is a finite vector), \<open>intersectSphere\<close>
  \<^item> reports no hit when the discriminant is negative;
  \<^item> takes the smaller root when it is a valid distance of the ray;
  \<^item> falls back to the larger root when the smaller one is not valid and the larger is;
  \<^item> reports no hit when neither root is valid;
  and a hit record holds the root as distance, the point of the ray there (which lies on
  the sphere), the normal turned against the ray, and the sphere's stored emission when the
  sphere is emissive.
\<close>

theorem intersectSphere_selects_root:
  assumes "dot (direction ray) (direction ray) = 1" and "sphere_radius sphere \<noteq> 0"
  shows "(sphere_discriminant ray sphere < 0 \<longrightarrow>
            intersectSphere E ray sphere = Some ((default_isect E)\<lparr>hit := False\<rparr>))
       \<and> (0 \<le> sphere_discriminant ray sphere \<and> isValidDistance E ray (smaller_root ray sphere) \<longrightarrow>
            (\<exists>isect. intersectSphere E ray sphere = Some isect
                    \<and> sphere_hit_record E ray sphere (smaller_root ray sphere) isect))
       \<and> (0 \<le> sphere_discriminant ray sphere \<and> \<not> isValidDistance E ray (smaller_root ray sphere)
            \<and> isValidDistance E ray (larger_root ray sphere) \<longrightarrow>
            (\<exists>isect. intersectSphere E ray sphere = Some isect
                    \<and> sphere_hit_record E ray sphere (larger_root ray sphere) isect))
       \<and> (0 \<le> sphere_discriminant ray sphere \<and> \<not> isValidDistance E ray (smaller_root ray sphere)
            \<and> \<not> isValidDistance E ray (larger_root ray sphere) \<longrightarrow>
            intersectSphere E ray sphere = Some ((default_isect E)\<lparr>hit := False\<rparr>))"
proof (intro conjI impI)
  assume "sphere_discriminant ray sphere < 0"
  then show "intersectSphere E ray sphere = Some ((default_isect E)\<lparr>hit := False\<rparr>)"
    by (simp add: intersectSphere_unfold)
next
  assume a: "0 \<le> sphere_discriminant ray sphere \<and> isValidDistance E ray (smaller_root ray sphere)"
  then show "\<exists>isect. intersectSphere E ray sphere = Some isect
                    \<and> sphere_hit_record E ray sphere (smaller_root ray sphere) isect"
    using sphere_hit_recordI [OF assms, of "smaller_root ray sphere" E]
    by (simp add: intersectSphere_unfold)
next
  assume a: "0 \<le> sphere_discriminant ray sphere \<and> \<not> isValidDistance E ray (smaller_root ray sphere)
            \<and> isValidDistance E ray (larger_root ray sphere)"
  then show "\<exists>isect. intersectSphere E ray sphere = Some isect
                    \<and> sphere_hit_record E ray sphere (larger_root ray sphere) isect"
    using sphere_hit_recordI [OF assms, of "larger_root ray sphere" E]
    by (simp add: intersectSphere_unfold)
next
  assume "0 \<le> sphere_discriminant ray sphere \<and> \<not> isValidDistance E ray (smaller_root ray sphere)
            \<and> \<not> isValidDistance E ray (larger_root ray sphere)"
  then show "intersectSphere E ray sphere = Some ((default_isect E)\<lparr>hit := False\<rparr>)"
    by (simp add: intersectSphere_unfold)
qed


theorem intersectSphere_selects_root_witness:
  "dot (direction example_ray) (direction example_ray) = 1
   \<and> sphere_radius (example_sphere (Vec3f 0 0 (- 5)) 1 2) \<noteq> 0
   \<and> (\<exists>isect. intersectSphere example_env example_ray (example_sphere (Vec3f 0 0 (- 5)) 1 2) = Some isect
         \<and> hit isect \<and> distance isect = 4 \<and> point isect = Vec3f 0 0 (- 4)
         \<and> emission isect = Color 2 3 4)"
proof -
  let ?s = "example_sphere (Vec3f 0 0 (- 5)) 1 2"
  have h1: "dot (direction example_ray) (direction example_ray) = 1"
    by (simp add: example_ray_def)
  have h2: "sphere_radius ?s \<noteq> 0"
    by (simp add: example_sphere_def)
  have d: "sphere_discriminant example_ray ?s = 1"
    by (simp add: sphere_discriminant_def sphere_half_b_def example_ray_def example_sphere_def)
  have r: "smaller_root example_ray ?s = 4"
    by (simp add: smaller_root_def d) (simp add: sphere_half_b_def example_ray_def example_sphere_def)
  have v: "isValidDistance example_env example_ray 4"
    by (simp add: example_env_def example_ray_def)
  from intersectSphere_selects_root [OF h1 h2, of example_env] d r v
  obtain isect where "intersectSphere example_env example_ray ?s = Some isect"
    and "sphere_hit_record example_env example_ray ?s 4 isect"
    by auto
  then show ?thesis using h1 h2
    by (auto simp: sphere_hit_record_def ray_at_def example_ray_def example_sphere_def
          Color_fromFloat3_def)
qed

lemma scan_spheres_foldl:
  "map (intersectSphere E ray) ss = map Some cs \<Longrightarrow>
   scan_spheres E ray ss acc = Some (foldl (\<lambda>a c. closer c a) acc cs)"
proof (induction ss arbitrary: cs acc)
  case Nil
  then show ?case by simp
next
  case (Cons s ss)
  then obtain c cs' where cs: "cs = c # cs'" "intersectSphere E ray s = Some c"
    "map (intersectSphere E ray) ss = map Some cs'"
    by (cases cs) auto
  then show ?case using Cons.IH [of cs' "closer c acc"] by simp
qed

lemma scan_planes_foldl:
  "scan_planes E ray ps acc = foldl (\<lambda>a c. closer c a) acc (map (intersectPlane E ray) ps)"
  by (induction ps arbitrary: acc) simp_all

lemma closest_scan:
  "(\<not> (\<exists>c \<in> set cs. qualifies fmax c) \<longrightarrow> foldl (\<lambda>a c. closer c a) (h0, fmax) cs = (h0, fmax))
 \<and> ((\<exists>c \<in> set cs. qualifies fmax c) \<longrightarrow>
      (\<exists>i. first_closest cs i \<and> distance (cs ! i) < fmax
         \<and> foldl (\<lambda>a c. closer c a) (h0, fmax) cs = (cs ! i, distance (cs ! i))))"
proof (induction cs rule: rev_induct)
  case Nil
  then show ?case by simp
next
  case (snoc c cs)
  let ?r = "foldl (\<lambda>a c. closer c a) (h0, fmax) cs"
  show ?case
  proof (cases "\<exists>c \<in> set cs. qualifies fmax c")
    case False
    with snoc have r: "?r = (h0, fmax)" by simp
    show ?thesis
    proof (cases "qualifies fmax c")
      case True
      have far: "fmax \<le> distance (cs ! j)" if "j < length cs" "hit (cs ! j)" for j
        using False that nth_mem [of j cs] by (fastforce simp: qualifies_def)
      have "first_closest (cs @ [c]) (length cs)"
        using True far
        by (fastforce simp: first_closest_def qualifies_def nth_append less_Suc_eq)
      then show ?thesis using True r
        by (auto simp: closer_def qualifies_def intro!: exI [of _ "length cs"])
    next
      case nq: False
      then show ?thesis using False r by (auto simp: closer_def qualifies_def)
    qed
  next
    case True
    with snoc obtain i where i: "first_closest cs i" "distance (cs ! i) < fmax"
      "?r = (cs ! i, distance (cs ! i))" by blast
    show ?thesis
    proof (cases "hit c \<and> distance c < distance (cs ! i)")
      case better: True
      have "first_closest (cs @ [c]) (length cs)"
        using better i(1)
        by (fastforce simp: first_closest_def nth_append less_Suc_eq)
      then show ?thesis using better i True
        by (auto simp: closer_def intro!: exI [of _ "length cs"])
    next
      case worse: False
      have "first_closest (cs @ [c]) i"
        using worse i(1)
        by (auto simp: first_closest_def nth_append less_Suc_eq)
      moreover have "(cs @ [c]) ! i = cs ! i"
        using i(1) by (simp add: first_closest_def nth_append)
      ultimately show ?thesis using worse i True
        by (auto simp: closer_def intro!: exI [of _ i])
    qed
  qed
qed


text \<open>
  Claim C6. \<open>intersectScene\<close> scans the first \<open>d_num_spheres\<close> spheres and then the first
  \<open>d_num_planes\<close> planes. With \<open>cs\<close> the records of these tests in scan order: when no
  record qualifies (a hit below the starting distance \<open>FLOAT_MAX\<close>), the result is the
  record with \<open>hit = false\<close>; otherwise it is the record of the first closest hit: no hit
  is nearer, and every hit scanned before it is strictly farther, so that the first object
  in scan order wins an exact tie.
\<close>

theorem intersectScene_closest:
  assumes "nat (d_num_spheres G) \<le> length (d_spheres G)"
    and "nat (d_num_planes G) \<le> length (d_planes G)"
    and "map (intersectSphere E ray) (take (nat (d_num_spheres G)) (d_spheres G)) = map Some ss"
    and "cs = ss @ map (intersectPlane E ray) (take (nat (d_num_planes G)) (d_planes G))"
  shows "(\<not> (\<exists>c \<in> set cs. qualifies (FLOAT_MAX E) c) \<longrightarrow>
            intersectScene E G ray = Some ((default_isect E)\<lparr>hit := False\<rparr>))
       \<and> ((\<exists>c \<in> set cs. qualifies (FLOAT_MAX E) c) \<longrightarrow>
            (\<exists>i. first_closest cs i \<and> intersectScene E G ray = Some (cs ! i)))"
proof -
  let ?h0 = "(default_isect E)\<lparr>hit := False\<rparr>"
  have "intersectScene E G ray = Some (fst (foldl (\<lambda>a c. closer c a) (?h0, FLOAT_MAX E) cs))"
    using assms by (simp add: intersectScene_def scan_spheres_foldl [OF assms(3)] scan_planes_foldl)
  then show ?thesis
    using closest_scan [of cs "FLOAT_MAX E" ?h0] by auto
qed

theorem intersectScene_closest_witness:
  "\<exists>isect. intersectScene example_env
      (example_state [example_sphere (Vec3f 0 0 (- 5)) 1 2, example_sphere (Vec3f 0 0 (- 6)) 2 3]
         [example_plane (- 4) 4])
      example_ray = Some isect
    \<and> hit isect \<and> distance isect = 4 \<and> material isect = 2"
proof -
  let ?G = "example_state [example_sphere (Vec3f 0 0 (- 5)) 1 2, example_sphere (Vec3f 0 0 (- 6)) 2 3]
         [example_plane (- 4) 4]"
  let ?a = "\<lparr>point = Vec3f 0 0 (- 4), normal = Vec3f 0 0 1, distance = 4, color = Color1 0,
             frontFace = True, emission = Color 2 3 4, hit = True, material = 2\<rparr>"
  let ?b = "\<lparr>point = Vec3f 0 0 (- 4), normal = Vec3f 0 0 1, distance = 4, color = Color1 0,
             frontFace = True, emission = Color 2 3 4, hit = True, material = 3\<rparr>"
  let ?c = "\<lparr>point = Vec3f 0 0 (- 4), normal = Vec3f 0 0 1, distance = 4, color = Color1 0,
             frontFace = True, emission = Color1 0, hit = True, material = 4\<rparr>"
  have sa: "intersectSphere example_env example_ray (example_sphere (Vec3f 0 0 (- 5)) 1 2) = Some ?a"
    by (simp add: intersectSphere_def sphere_root_def Let_def example_env_def example_ray_def
          example_sphere_def example_isect_def ray_at_def vdiv_def setFaceNormal_def
          Color_fromFloat3_def)
  have sb: "intersectSphere example_env example_ray (example_sphere (Vec3f 0 0 (- 6)) 2 3) = Some ?b"
    by (simp add: intersectSphere_def sphere_root_def Let_def example_env_def example_ray_def
          example_sphere_def example_isect_def ray_at_def vdiv_def setFaceNormal_def
          Color_fromFloat3_def)
  have pc: "intersectPlane example_env example_ray (example_plane (- 4) 4) = ?c"
    by (simp add: intersectPlane_def Let_def example_env_def example_ray_def
          example_plane_def example_isect_def ray_at_def setFaceNormal_def)
  have n: "nat (d_num_spheres ?G) \<le> length (d_spheres ?G)" "nat (d_num_planes ?G) \<le> length (d_planes ?G)"
    by (simp_all add: example_state_def)
  have m: "map (intersectSphere example_env example_ray) (take (nat (d_num_spheres ?G)) (d_spheres ?G))
            = map Some [?a, ?b]"
    by (simp add: example_state_def sa sb)
  have c: "[?a, ?b, ?c] = [?a, ?b] @ map (intersectPlane example_env example_ray)
                                      (take (nat (d_num_planes ?G)) (d_planes ?G))"
    by (simp add: example_state_def pc)
  have q: "\<exists>x \<in> set [?a, ?b, ?c]. qualifies (FLOAT_MAX example_env) x"
    by (simp add: qualifies_def example_env_def)
  from intersectScene_closest [OF n m c] q
  obtain i where i: "first_closest [?a, ?b, ?c] i"
    and r: "intersectScene example_env ?G example_ray = Some ([?a, ?b, ?c] ! i)"
    by blast
  have "i = 0"
  proof (rule ccontr)
    assume "i \<noteq> 0"
    then have "0 < i" by simp
    with i have "distance ([?a, ?b, ?c] ! i) < distance ([?a, ?b, ?c] ! 0)"
      unfolding first_closest_def by auto
    moreover from i have "i < 3" by (simp add: first_closest_def)
    then have "i = 0 \<or> i = 1 \<or> i = 2" by auto
    ultimately show False by auto
  qed
  with r show ?thesis by simp
qed

section \<open>Properties of the path integrator\<close>

lemma intersectScene_empty:
  assumes "d_num_spheres G = 0" and "d_num_planes G = 0"
  shows "intersectScene E G ray = Some ((default_isect E)\<lparr>hit := False\<rparr>)"
  using assms by (simp add: intersectScene_def)

text \<open>
  Claim C4. Against a scene with zero spheres and zero planes, the first iteration of the
  loop of \<open>traceRay\<close> (bounce index 0, with the initial colours) leaves the loop, and
  \<open>traceRay\<close> returns exactly zero radiance for every ray, random state and depth limit,
  without drawing a random number.
\<close>

theorem traceRay_empty_scene:
  assumes "d_num_spheres G = 0" and "d_num_planes G = 0"
  shows "traceRay_body E G 0 ray (Color1 0) (Color1 1) rand_state = Some (Break (Color 0 0 0) rand_state)
       \<and> traceRay E G ray rand_state max_depth = Some (Color 0 0 0, rand_state)"
proof -
  have b: "traceRay_body E G 0 ray (Color1 0) (Color1 1) rand_state = Some (Break (Color 0 0 0) rand_state)"
    by (simp add: traceRay_body_def intersectScene_empty [OF assms] Color1_def)
  have "traceRay_loop E G max_depth 0 ray (Color1 0) (Color1 1) rand_state = Some (Color 0 0 0, rand_state)"
    using b by (subst traceRay_loop.simps) (simp add: Color1_def)
  then show ?thesis using b by (simp add: traceRay_def)
qed

theorem traceRay_empty_scene_witness:
  "d_num_spheres (example_state [] []) = 0 \<and> d_num_planes (example_state [] []) = 0
   \<and> traceRay example_env (example_state [] []) example_ray (7 :: nat) 50 = Some (Color 0 0 0, 7)"
proof -
  have h: "d_num_spheres (example_state [] []) = 0" "d_num_planes (example_state [] []) = 0"
    by (simp_all add: example_state_def)
  show ?thesis
    using h traceRay_empty_scene [OF h, of example_env example_ray 7 50] by simp
qed

lemma example_plane_hit:
  "intersectScene example_env (example_state [] [example_plane (- 4) m]) example_ray =
     Some \<lparr>point = Vec3f 0 0 (- 4), normal = Vec3f 0 0 1, distance = 4, color = Color1 0,
             frontFace = True, emission = Color1 0, hit = True, material = m\<rparr>"
  by (simp add: intersectScene_def example_state_def closer_def intersectPlane_def Let_def
        example_env_def example_ray_def example_plane_def example_isect_def ray_at_def
        setFaceNormal_def)

lemma russian_roulette_cases:
  assumes "curand_uniform E rand_state = (u, rand_state')"
  shows "russian_roulette E depth throughput rand_state =
          (if depth \<le> 3 then Some (Survived throughput rand_state)
           else if u > max_component throughput then Some (Terminated rand_state')
           else if max_component throughput = 0 then None
           else Some (Survived (cdivide throughput (max_component throughput)) rand_state'))"
  using assms
  by (cases throughput)
     (simp add: russian_roulette_def max_component_def cdivide_def fdiv_def Let_def)

text \<open>
  Claim C3, amended. At a bounce where the ray hits and the material scatters:
  \<^item> a specular bounce has no roulette at any bounce index: no number is drawn and the
    throughput is only multiplied by the attenuation;
  \<^item> a non-specular bounce (with a sampling density other than 0) at a bounce index up to 3
    has no roulette: no number is drawn and the next iteration gets the throughput \<open>tp\<close>
    as updated by this bounce;
  \<^item> a non-specular bounce at a bounce index above 3 has it: \<open>p\<close> is the largest channel of
    \<open>tp\<close>, the path ends when the draw exceeds \<open>p\<close>, and otherwise (for \<open>p\<close> other
    than 0) the throughput is \<open>tp\<close> divided by \<open>p\<close>.
\<close>

theorem traceRay_roulette:
  assumes "intersectScene E G ray = Some isect" and "hit isect"
    and "mat = material_at E (material isect)"
    and "scatter mat ray isect rand_state = (Some srec, rs1)"
    and "fc = cadd final_color (cmul throughput (emitted mat ray isect))"
    and "tp = cmul throughput
                (cscale (cscale (attenuation srec)
                           (scatteringPdf mat (scattered_ray srec) isect (scattered_ray srec)))
                        (1 / pdf srec))"
    and "curand_uniform E rs1 = (u, rs2)"
  shows "(is_specular srec \<longrightarrow>
            traceRay_body E G depth ray final_color throughput rand_state =
              Some (Continue (scattered_ray srec) fc (cmul throughput (attenuation srec)) rs1))
       \<and> (\<not> is_specular srec \<and> pdf srec \<noteq> 0 \<and> depth \<le> 3 \<longrightarrow>
            traceRay_body E G depth ray final_color throughput rand_state =
              Some (Continue (scattered_ray srec) fc tp rs1))
       \<and> (\<not> is_specular srec \<and> pdf srec \<noteq> 0 \<and> depth > 3 \<and> u > max_component tp \<longrightarrow>
            traceRay_body E G depth ray final_color throughput rand_state = Some (Break fc rs2))
       \<and> (\<not> is_specular srec \<and> pdf srec \<noteq> 0 \<and> depth > 3 \<and> \<not> u > max_component tp
            \<and> max_component tp \<noteq> 0 \<longrightarrow>
            traceRay_body E G depth ray final_color throughput rand_state =
              Some (Continue (scattered_ray srec) fc (cdivide tp (max_component tp)) rs2))"
  using assms(1-6)
  by (simp add: traceRay_body_def Let_def fdiv_def russian_roulette_cases [OF assms(7)])

theorem traceRay_roulette_witness:
  "traceRay_body example_env (example_state [] [example_plane (- 4) 4]) 4 example_ray
      (Color1 0) (Color1 1) 0
     = Some (Continue (example_ray\<lparr>origin := Vec3f 0 0 (- 4), direction := Vec3f 0 0 1\<rparr>)
               (Color 0 0 0) (Color 1 (1 / 2) (1 / 4)) 1)"
proof -
  let ?G = "example_state [] [example_plane (- 4) 4]"
  let ?i = "\<lparr>point = Vec3f 0 0 (- 4), normal = Vec3f 0 0 1, distance = 4, color = Color1 0,
             frontFace = True, emission = Color1 0, hit = True, material = 4\<rparr>"
  let ?srec = "\<lparr>attenuation = Color (1 / 2) (1 / 4) (1 / 8),
                scattered_ray = example_ray\<lparr>origin := Vec3f 0 0 (- 4), direction := Vec3f 0 0 1\<rparr>,
                pdf = 1 / 2, is_specular = False\<rparr>"
  have a1: "intersectScene example_env ?G example_ray = Some ?i" by (rule example_plane_hit)
  have a2: "hit ?i" by simp
  have a3: "example_diffuse = material_at example_env (material ?i)"
    by (simp add: example_env_def)
  have a4: "scatter example_diffuse example_ray ?i 0 = (Some ?srec, 0)"
    by (simp add: example_diffuse_def)
  have a5: "Color 0 0 0 = cadd (Color1 0) (cmul (Color1 1) (emitted example_diffuse example_ray ?i))"
    by (simp add: example_diffuse_def Color1_def)
  have a6: "Color (1 / 2) (1 / 4) (1 / 8) = cmul (Color1 1)
                (cscale (cscale (attenuation ?srec)
                           (scatteringPdf example_diffuse (scattered_ray ?srec) ?i (scattered_ray ?srec)))
                        (1 / pdf ?srec))"
    by (simp add: example_diffuse_def Color1_def)
  have a7: "curand_uniform example_env 0 = (1 / 2, 1)"
    by (simp add: example_env_def)
  from traceRay_roulette [OF a1 a2 a3 a4 a5 a6 a7, of 4]
  show ?thesis by (simp add: max_component_def cdivide_def)
qed

text \<open>
  Claim C3 as stated fails at a specular bounce: at bounce index 4, on the mirror of the
  example scene and with throughput \<open>0.1\<close>, the next draw (\<open>1/2\<close>) exceeds the largest
  channel \<open>p = 0.09\<close> of the throughput, and yet the path goes on, no number is drawn (the
  random state is still 0) and the throughput is not divided by \<open>p\<close>.
\<close>

theorem traceRay_specular_counterexample:
  "traceRay_body example_env (example_state [] [example_plane (- 4) 0]) 4 example_ray
      (Color1 0) (Color1 (1 / 10)) 0
     = Some (Continue (example_ray\<lparr>origin := Vec3f 0 0 (- 4), direction := Vec3f 0 0 1\<rparr>)
               (Color 0 0 0) (Color (9 / 100) (9 / 100) (9 / 100)) 0)
   \<and> fst (curand_uniform example_env 0) > max_component (Color (9 / 100) (9 / 100) (9 / 100))"
proof -
  have m: "material_at example_env 0 = example_mirror"
    and u: "curand_uniform example_env 0 = (1 / 2, 1)"
    by (simp_all add: example_env_def)
  show ?thesis
    by (simp add: traceRay_body_def example_plane_hit m u Let_def)
       (simp add: example_mirror_def Color1_def max_component_def)
qed

section \<open>Properties of the render kernel\<close>

lemma accumulate_first_frame: "accumulate 0 prev_color pixel_color = Some pixel_color"
  by (simp add: accumulate_def)

lemma accumulate_blend:
  assumes "0 < frame_count" and "frame_count \<noteq> - 1"
  shows "accumulate frame_count prev_color pixel_color =
           Some (cadd (cscale pixel_color (1 / (real (unat frame_count) + 1)))
                      (cscale (Color (f4_x prev_color) (f4_y prev_color) (f4_z prev_color))
                              (1 - 1 / (real (unat frame_count) + 1))))"
proof -
  have "1 + frame_count \<noteq> 0"
    using assms(2) by (simp add: eq_neg_iff_add_eq_0 add.commute)
  then have "unat (1 + frame_count) = Suc (unat frame_count)"
    by (rule unatSuc)
  then have "unat (frame_count + 1) = Suc (unat frame_count)"
    by (simp add: add.commute)
  moreover have "1 + real (unat frame_count) \<noteq> 0"
    using of_nat_0_le_iff [of "unat frame_count", where 'a = real] by linarith
  ultimately show ?thesis using assms(1) by (simp add: accumulate_def fdiv_def add.commute)
qed

lemma blend_same: "cadd (cscale c t) (cscale c (1 - t)) = c"
  by (cases c) (simp add: algebra_simps)

lemma accumulate_fixed_point:
  assumes "frame_count \<noteq> - 1"
    and "Color (f4_x prev_color) (f4_y prev_color) (f4_z prev_color) = pixel_color"
  shows "accumulate frame_count prev_color pixel_color = Some pixel_color"
proof (cases "frame_count = 0")
  case True
  then show ?thesis by (simp add: accumulate_first_frame)
next
  case False
  then have "0 < frame_count" by (simp add: word_gt_0)
  then show ?thesis using assms by (simp add: accumulate_blend blend_same)
qed

text \<open>
  Claim C7. The first frame overwrites (\<open>accumulate_first_frame\<close>), a later frame blends
  with weight \<open>1 / (frame_count + 1)\<close> (\<open>accumulate_blend\<close>) and a colour blended with
  itself stays (\<open>accumulate_fixed_point\<close>), the kernel writing the result for the
  traced sample into the cell of the pixel (\<open>renderKernel_writes\<close>): all of this for
  every frame count but the last one. At \<open>frame_count = 4294967295\<close> the sum
  \<open>frame_count + 1\<close> wraps to 0 in \<open>uint32_t\<close>, the weight is \<open>1 / 0\<close>, and the cell
  does not keep the colour: the accumulation has no finite value.
\<close>

theorem accumulate_wraps_at_last_frame_count:
  "(4294967295 :: 32 word) + 1 = 0
   \<and> accumulate 4294967295 (make_float4 (1 / 2) (1 / 2) (1 / 2) 1) (Color (1 / 2) (1 / 2) (1 / 2)) = None"
  by (simp add: accumulate_def fdiv_def)

lemma renderKernel_last_frame_count:
  assumes "blockIdx_x T * blockDim_x T + threadIdx_x T < width"
    and "blockIdx_y T * blockDim_y T + threadIdx_y T < height"
  shows "renderKernel E G T output width height (- 1) = None"
proof -
  have "accumulate (- 1) p c = None" for p c
    by (simp add: accumulate_def fdiv_def word_gt_0)
  then show ?thesis using assms
    by (auto simp: renderKernel_def Let_def split: prod.splits option.splits)
qed

lemma renderKernel_writes:
  assumes "renderKernel E G T output width height frame_count = Some output'"
    and "blockIdx_x T * blockDim_x T + threadIdx_x T < width"
    and "blockIdx_y T * blockDim_y T + threadIdx_y T < height"
    and "i = nat (sint ((blockIdx_y T * blockDim_y T + threadIdx_y T) * width
                         + (blockIdx_x T * blockDim_x T + threadIdx_x T)))"
  shows "\<exists>ray rs sample rs' c.
             traceRay E G ray rs 50 = Some (sample, rs')
           \<and> accumulate frame_count (output ! i) sample = Some c
           \<and> i < length output
           \<and> output' = output[i := make_float4 (col_r c) (col_g c) (col_b c) 1]"
  using assms
  by (auto simp: renderKernel_def Let_def not_le split: prod.splits option.splits if_splits)

section \<open>Properties of the scene bridge\<close>

text \<open>The emission stored for an emissive sphere at upload is its colour times its strength.\<close>

lemma toGPUSphere_emission:
  "isEmissive s \<Longrightarrow>
   Color_fromFloat3 (sphere_emission (toGPUSphere s)) = cscale (getEmissionColor s) (getEmissionStrength s)"
  by (cases "getEmissionColor s") (simp add: toGPUSphere_def Color_fromFloat3_def Let_def)

lemma convert_spheres_replicate:
  "convert_spheres (replicate n (Sphere s)) = replicate n (toGPUSphere s)"
  by (induction n) simp_all

lemma convert_planes_replicate:
  "convert_planes (replicate n (Sphere s)) = []"
  by (induction n) simp_all

text \<open>The ways \<open>initializeGPUData\<close> throws: none of them looks at a count of spheres or planes.\<close>

lemma initializeGPUData_errors:
  assumes "fst (initializeGPUData camera d_scene G) = Inl e"
  shows "d_scene = Null \<and> e = runtime_error ''Scene pointer is null in initializeGPUData''
       \<or> d_scene = Dangling \<and> e = cuda_error
       \<or> (\<exists>h_scene. d_scene = Ptr h_scene \<and> 0 < implicit_object_count h_scene
             \<and> cudaMemcpy_array (d_implicit_objects h_scene) (nat (implicit_object_count h_scene)) = None
             \<and> e = cuda_error)"
  using assms
  by (cases d_scene)
     (auto simp: initializeGPUData_def cudaMemcpy_struct_def Let_def split: option.splits if_splits)

lemma cudaMemcpyToSymbol_prefix:
  "length src \<le> length symbol \<Longrightarrow>
     take (length src) (cudaMemcpyToSymbol symbol src) = src
   \<and> drop (length src) (cudaMemcpyToSymbol symbol src) = drop (length src) symbol
   \<and> length (cudaMemcpyToSymbol symbol src) = length symbol"
  by (simp add: cudaMemcpyToSymbol_def)

text \<open>Within the capacity of the arrays, the first cells hold the converted objects.\<close>

lemma initializeGPUData_within_capacity:
  assumes "0 < implicit_object_count h_scene"
    and "d_implicit_objects h_scene = Ptr objs"
    and "nat (implicit_object_count h_scene) \<le> length objs"
    and "h_objs = take (nat (implicit_object_count h_scene)) objs"
    and "length (convert_spheres h_objs) \<le> length (d_spheres G)"
    and "length (convert_planes h_objs) \<le> length (d_planes G)"
    and "G' = snd (initializeGPUData camera (Ptr h_scene) G)"
  shows "take (nat (d_num_spheres G')) (d_spheres G') = convert_spheres h_objs
       \<and> take (nat (d_num_planes G')) (d_planes G') = convert_planes h_objs"
  using assms
  by (simp add: initializeGPUData_def cudaMemcpy_struct_def cudaMemcpy_array_def Let_def
        cudaMemcpyToSymbol_def)

text \<open>
  Claim C1 as stated fails: an upload of 17 spheres returns normally and publishes the
  count 17.
\<close>

theorem initializeGPUData_over_capacity_counterexample:
  "fst (initializeGPUData example_host_camera
          (Ptr \<lparr>implicit_object_count = 17,
                d_implicit_objects = Ptr (replicate 17 (Sphere example_host_sphere))\<rparr>)
          (example_state [] [])) = Inr ()
   \<and> d_num_spheres (snd (initializeGPUData example_host_camera
          (Ptr \<lparr>implicit_object_count = 17,
                d_implicit_objects = Ptr (replicate 17 (Sphere example_host_sphere))\<rparr>)
          (example_state [] []))) = 17"
  by (simp add: initializeGPUData_def cudaMemcpy_struct_def cudaMemcpy_array_def Let_def
        convert_spheres_replicate convert_planes_replicate)

text \<open>
  Claim C1, amended. \<open>initializeGPUData\<close> has no capacity check: for a scene handle and
  an object array that can be read, it returns normally whatever the number of objects is,
  and publishes the camera and, as the two counts, the numbers of spheres and of planes
  among the objects.
\<close>

theorem initializeGPUData_no_capacity_check:
  assumes "0 < implicit_object_count h_scene"
    and "d_implicit_objects h_scene = Ptr objs"
    and "nat (implicit_object_count h_scene) \<le> length objs"
    and "h_objs = take (nat (implicit_object_count h_scene)) objs"
  shows "fst (initializeGPUData camera (Ptr h_scene) G) = Inr ()
       \<and> d_num_spheres (snd (initializeGPUData camera (Ptr h_scene) G)) = int (length (convert_spheres h_objs))
       \<and> d_num_planes (snd (initializeGPUData camera (Ptr h_scene) G)) = int (length (convert_planes h_objs))
       \<and> d_camera (snd (initializeGPUData camera (Ptr h_scene) G)) = toGPUCamera camera"
  using assms
  by (simp add: initializeGPUData_def cudaMemcpy_struct_def cudaMemcpy_array_def Let_def)

theorem initializeGPUData_no_capacity_check_witness:
  "d_num_spheres (snd (initializeGPUData example_host_camera
      (Ptr \<lparr>implicit_object_count = 2,
            d_implicit_objects = Ptr [Sphere example_host_sphere, OtherObject, Sphere example_host_sphere]\<rparr>)
      (example_state [] []))) = 1
   \<and> fst (initializeGPUData example_host_camera
      (Ptr \<lparr>implicit_object_count = 2,
            d_implicit_objects = Ptr [Sphere example_host_sphere, OtherObject, Sphere example_host_sphere]\<rparr>)
      (example_state [] [])) = Inr ()"
proof -
  let ?objs = "[Sphere example_host_sphere, OtherObject, Sphere example_host_sphere]"
  let ?s = "\<lparr>implicit_object_count = 2, d_implicit_objects = Ptr ?objs\<rparr>"
  have h: "0 < implicit_object_count ?s" "d_implicit_objects ?s = Ptr ?objs"
    "nat (implicit_object_count ?s) \<le> length ?objs"
    "[Sphere example_host_sphere, OtherObject] = take (nat (implicit_object_count ?s)) ?objs"
    by simp_all
  from initializeGPUData_no_capacity_check [OF h, of example_host_camera "example_state [] []"]
  show ?thesis by simp
qed

text \<open>
  Claim C2. With a null scene handle \<open>initializeGPUData\<close> throws and constant memory is
  what it was. With a handle to a scene whose object count is zero (or below) or whose
  object array pointer is null, it returns normally and publishes zero spheres and zero
  planes (and the camera).
\<close>

theorem initializeGPUData_null_and_empty:
  "initializeGPUData camera Null G =
      (Inl (runtime_error ''Scene pointer is null in initializeGPUData''), G)
   \<and> (implicit_object_count h_scene \<le> 0 \<or> d_implicit_objects h_scene = Null \<longrightarrow>
        initializeGPUData camera (Ptr h_scene) G =
          (Inr (), G\<lparr>d_camera := toGPUCamera camera, d_num_spheres := 0, d_num_planes := 0\<rparr>))"
  by (simp add: initializeGPUData_def cudaMemcpy_struct_def)

theorem initializeGPUData_null_and_empty_witness:
  "initializeGPUData example_host_camera
      (Ptr \<lparr>implicit_object_count = 0, d_implicit_objects = Ptr [Sphere example_host_sphere]\<rparr>)
      (example_state [example_sphere (Vec3f 0 0 (- 5)) 1 2] [])
    = (Inr (), (example_state [example_sphere (Vec3f 0 0 (- 5)) 1 2] [])
                 \<lparr>d_camera := toGPUCamera example_host_camera, d_num_spheres := 0, d_num_planes := 0\<rparr>)"
  using initializeGPUData_null_and_empty [of example_host_camera "example_state [example_sphere (Vec3f 0 0 (- 5)) 1 2] []"
      "\<lparr>implicit_object_count = 0, d_implicit_objects = Ptr [Sphere example_host_sphere]\<rparr>"]
  by simp

end
